theory Spec2Isabelle
  imports Main
begin

section \<open>Progress events (structures.py)\<close>

text \<open>
  \<^verbatim>\<open>CGetResponse = namedtuple('CGetResponse', 'pcid, remaining, completed, failed, warning, status')\<close>
  and
  \<^verbatim>\<open>CStoreResponse = namedtuple('CStoreResponse', 'pcid, status')\<close>.
  These are the classes of \<open>structures.py\<close>, which \<open>pydcm4che3\<close> imports and whose
  tuples the parsers build. Python integers are unbounded: every field is an \<open>int\<close>.
  \<open>queryinterface.py\<close> declares two classes of its own with the same names and fields
  (type \<open>response\<close> below); written in full, the constructors and selectors of the
  present type are \<open>structures.CGetResponse\<close>, \<open>structures.status\<close> and so on.
\<close>

datatype structures =
    CGetResponse (pcid: int) (remaining: int) (completed: int) (failed: int)
                 (warning: int) (status: int)
  | CStoreResponse (pcid: int) (status: int)

section \<open>The regular expressions of the progress-line parsers (pydcm4che3.py)\<close>

text \<open>
  A line is a Python 3 \<open>str\<close>; the model takes the code points below 256, one \<open>char\<close> each.
  In that range \<^verbatim>\<open>\d\<close> is the ten ASCII digits, \<^verbatim>\<open>\s\<close> is
  \<^verbatim>\<open>[ \t\n\r\f\v]\<close> together with the code points 28-31, 133 and 160, and
  \<^verbatim>\<open>.\<close> is every character but the newline.
\<close>

datatype atom = Digit | Space | Dot | HexDigit

definition whitespace :: "char list" where
  "whitespace = map char_of [9, 10, 11, 12, 13, 28, 29, 30, 31, 32, 133, 160 :: nat]"

fun atom_matches :: "atom \<Rightarrow> char \<Rightarrow> bool" where
  "atom_matches Digit c = (c \<in> set ''0123456789'')"
| "atom_matches Space c = (c \<in> set whitespace)"
| "atom_matches Dot c = (c \<noteq> CHR 0x0A)"
| "atom_matches HexDigit c = (c \<in> set ''0123456789ABCDEFabcdef'')"

text \<open>
  The two patterns are sequences of literal text, repetitions of one character class
  (\<^verbatim>\<open>\d\<close>, \<^verbatim>\<open>[\d]{1,3}\<close>, \<^verbatim>\<open>\s+\<close>, \<^verbatim>\<open>.*\<close>) and capture groups around
  such a repetition (\<^verbatim>\<open>([\d]+)\<close>, \<^verbatim>\<open>([\dA-Fa-f]{1,4})\<close>).
  \<open>Rep a lo hi\<close> repeats class \<open>a\<close> at least \<open>lo\<close> and at most \<open>hi\<close> times
  (\<open>None\<close>: no upper bound); \<open>Group\<close> is the same, captured.
\<close>

datatype regex_item =
    Lit string
  | Rep atom nat "nat option"
  | Group atom nat "nat option"

text \<open>
  Every quantifier of the patterns is greedy: the engine first takes as many characters as
  the class and the upper bound allow and gives them back one at a time while the rest of
  the pattern fails. \<open>greedy_counts\<close> lists the repetition counts in the order the engine
  tries them.
\<close>

definition greedy_counts :: "atom \<Rightarrow> nat \<Rightarrow> nat option \<Rightarrow> string \<Rightarrow> nat list" where
  "greedy_counts a lo hi s =
     (let n = length (takeWhile (atom_matches a) s);
          m = (case hi of None \<Rightarrow> n | Some h \<Rightarrow> min h n)
      in rev [lo ..< Suc m])"

fun first_some :: "('a \<Rightarrow> 'b option) \<Rightarrow> 'a list \<Rightarrow> 'b option" where
  "first_some f [] = None"
| "first_some f (x # xs) = (case f x of Some y \<Rightarrow> Some y | None \<Rightarrow> first_some f xs)"

text \<open>
  \<^verbatim>\<open>re.match(r, line)\<close>: the pattern is matched at the start of the line and need not
  reach its end. The result is \<open>None\<close> when no way of matching exists, and otherwise the
  texts of the capture groups, in order, of the first match the backtracking search finds.
\<close>

fun re_match :: "regex_item list \<Rightarrow> string \<Rightarrow> string list option" where
  "re_match [] s = Some []"
| "re_match (Lit l # r) s =
     (if take (length l) s = l then re_match r (drop (length l) s) else None)"
| "re_match (Rep a lo hi # r) s =
     first_some (\<lambda>k. re_match r (drop k s)) (greedy_counts a lo hi s)"
| "re_match (Group a lo hi # r) s =
     first_some (\<lambda>k. map_option (Cons (take k s)) (re_match r (drop k s)))
       (greedy_counts a lo hi s)"

text \<open>\<^verbatim>\<open>m.group(i)\<close>, groups counted from 1.\<close>

definition group :: "string list \<Rightarrow> nat \<Rightarrow> string" where
  "group m i = m ! (i - 1)"

text \<open>
  \<^verbatim>\<open>int(s)\<close> and \<^verbatim>\<open>int(s, 16)\<close> on a token of digits: the parsers call them on
  capture groups only, which hold nothing but digits of the base or of base 10.
\<close>

definition digit_value :: "char \<Rightarrow> nat" where
  "digit_value c =
     (if c \<in> set ''0123456789'' then of_char c - 48
      else if c \<in> set ''abcdef'' then of_char c - 87
      else of_char c - 55)"

definition py_int :: "nat \<Rightarrow> string \<Rightarrow> int" where
  "py_int base s = foldl (\<lambda>acc c. acc * int base + int (digit_value c)) 0 s"

abbreviation digit :: regex_item where
  "digit \<equiv> Rep Digit 1 (Some 1)"

text \<open>
  \<^verbatim>\<open>r"\d\d:\d\d:\d\d,[\d]{1,3}\s+INFO\s+.*[\d]+:C-GET-RSP\[pcid=([\d]+),\s+completed=([\d]+),\s+failed=([\d]+),\s+warning=([\d]+),\s+status=([\dA-Fa-f]{1,4})H.*"\<close>
\<close>

definition cget_regex :: "regex_item list" where
  "cget_regex =
     [digit, digit, Lit '':'', digit, digit, Lit '':'', digit, digit, Lit '','',
      Rep Digit 1 (Some 3), Rep Space 1 None, Lit ''INFO'', Rep Space 1 None,
      Rep Dot 0 None, Rep Digit 1 None, Lit '':C-GET-RSP[pcid='',
      Group Digit 1 None, Lit '','', Rep Space 1 None, Lit ''completed='',
      Group Digit 1 None, Lit '','', Rep Space 1 None, Lit ''failed='',
      Group Digit 1 None, Lit '','', Rep Space 1 None, Lit ''warning='',
      Group Digit 1 None, Lit '','', Rep Space 1 None, Lit ''status='',
      Group HexDigit 1 (Some 4), Lit ''H'', Rep Dot 0 None]"

text \<open>
  \<^verbatim>\<open>r"\d\d:\d\d:\d\d,[\d]{1,3}\s+INFO\s+-\s+.*[\d]+:C-STORE-RSP\[pcid=([\d]+),\s+status=([\dA-Fa-f]{1,4})H"\<close>
\<close>

definition cstore_regex :: "regex_item list" where
  "cstore_regex =
     [digit, digit, Lit '':'', digit, digit, Lit '':'', digit, digit, Lit '','',
      Rep Digit 1 (Some 3), Rep Space 1 None, Lit ''INFO'', Rep Space 1 None,
      Lit ''-'', Rep Space 1 None,
      Rep Dot 0 None, Rep Digit 1 None, Lit '':C-STORE-RSP[pcid='',
      Group Digit 1 None, Lit '','', Rep Space 1 None, Lit ''status='',
      Group HexDigit 1 (Some 4), Lit ''H'']"

text \<open>
  \<^verbatim>\<open>
  def _parse_cget_response(line):
      m = re.match(r, line)
      if m:
          pcid = int(m.group(1))
          completed = int(m.group(2))
          failed = int(m.group(3))
          warning = int(m.group(4))
          status = int(m.group(4), 16)
          remaining = 0
          return CGetResponse(pcid, remaining, completed, failed, warning, status)
      else:
          return None
  \<close>
\<close>

definition parse_cget_response :: "string \<Rightarrow> structures option" where
  "parse_cget_response line =
     (case re_match cget_regex line of
        Some m \<Rightarrow>
          Some (CGetResponse (py_int 10 (group m 1)) 0 (py_int 10 (group m 2))
                  (py_int 10 (group m 3)) (py_int 10 (group m 4)) (py_int 16 (group m 4)))
      | None \<Rightarrow> None)"

text \<open>
  \<^verbatim>\<open>
  def _parse_cstore_response(line):
      m = re.match(r, line)
      if m:
          pcid = int(m.group(1))
          status = int(m.group(2), 16)
          return CStoreResponse(pcid, status)
      else:
          return None
  \<close>
\<close>

definition parse_cstore_response :: "string \<Rightarrow> structures option" where
  "parse_cstore_response line =
     (case re_match cstore_regex line of
        Some m \<Rightarrow> Some (CStoreResponse (py_int 10 (group m 1)) (py_int 16 (group m 2)))
      | None \<Rightarrow> None)"

section \<open>Errors and generators\<close>

text \<open>
  The exceptions the modelled code raises, by class. A message is kept as the format
  string's arguments, not as the formatted text.
\<close>

datatype message =
    NotInNodeTable string
    \<comment> \<open>\<^verbatim>\<open>"%s is not in dicom node table" % servername\<close>\<close>
  | NoRetrieveFacility string
    \<comment> \<open>\<^verbatim>\<open>"%s supports neither direct (c-get) retrieve operations nor a web rest api"\<close>\<close>
  | NoQueryFacility string
    \<comment> \<open>\<^verbatim>\<open>"%s supports neither dicom query (c-find) operations nor a web rest api"\<close>\<close>
  | LevelNotSupported "string list"
    \<comment> \<open>\<^verbatim>\<open>'the level not supported, the supported choices are {}'\<close>\<close>
  | FinalStatusNonZero int
    \<comment> \<open>\<^verbatim>\<open>"cget final response status non zero (%x)" % response.status\<close>\<close>
  | CGetFailed string int "string list"
    \<comment> \<open>\<^verbatim>\<open>"C-get from %s failed (%d), Command line was %s" % (aet, returncode, get_cmd)\<close>\<close>
  | QueryFailed string string "string list"
    \<comment> \<open>\<^verbatim>\<open>"Query to %s failed: %s, Command line was %s" % (aet, output, find_cmd)\<close>\<close>

datatype error =
    QIError message
  | PyException message  \<comment> \<open>\<^verbatim>\<open>raise Exception(...)\<close>\<close>
  | KeyError string  \<comment> \<open>a subscript with a missing key; the key as text\<close>
  | NameError string  \<comment> \<open>a name that no scope binds\<close>
  | UnboundLocalError string  \<comment> \<open>a local variable read before any assignment\<close>
  | OtherError string  \<comment> \<open>whatever an external collaborator raises\<close>

text \<open>
  A Python generator, run to its end: the items it yields, in order, and then how it
  stops (\<open>None\<close>: it returns; \<open>Some e\<close>: it raises \<open>e\<close>). An error is always raised
  after the items listed before it have been yielded.
\<close>

type_synonym 'a generator = "'a list \<times> error option"

section \<open>Building the command line (pydcm4che3.combo\_cmd)\<close>

definition level_map :: "(string \<times> string list list) list" where
  "level_map =
     [(''patient'', [[''-M'', ''PatientRoot''], [''-L'', ''PATIENT'']]),
      (''study'', [[''-M'', ''StudyRoot''], [''-L'', ''STUDY'']]),
      (''series'', [[''-M'', ''PatientRoot''], [''-L'', ''SERIES'']]),
      (''image'', [[''-M'', ''PatientRoot''], [''-L'', ''IMAGE'']])]"

definition level_required_keys_map :: "(string \<times> string list) list" where
  "level_required_keys_map =
     [(''patient'', [''PatientName'', ''PatientID'', ''PatientBirthDate'', ''PatientSex'']),
      (''study'', [''PatientID'', ''StudyID'', ''StudyInstanceUID'', ''StudyDate'',
                   ''StudyDescription'']),
      (''series'', [''PatientID'', ''StudyInstanceUID'', ''Modality'', ''SeriesNumber'',
                    ''SeriesInstanceUID'', ''SeriesDescription'', ''BodyPartExamined'']),
      (''image'', [''PatientID'', ''StudyInstanceUID'', ''SeriesInstanceUID'',
                   ''InstanceNumber'', ''SOPInstanceUID''])]"

text \<open>
  \<open>query_map\<close> is the dictionary of keyword arguments: an association list in the order
  the caller wrote them, which is the order \<^verbatim>\<open>query_map.items()\<close> iterates in.
\<close>

type_synonym query_map = "(string \<times> string) list"

text \<open>
  One turn of the loop over \<^verbatim>\<open>query_map.items()\<close>; the state is the command line and
  the list \<^verbatim>\<open>level_required_keys\<close>:
  \<^verbatim>\<open>
      if v == '':
          cmd += ['-r', '{key}'.format(key=k)]
          continue
      if USEQUOTES:
          k = '"%s"' % k
      cmd += ['-m', '{key}={value}'.format(key=k, value=v)]
      if k in level_required_keys:
          level_required_keys.remove(k)
  \<close>
\<close>

definition combo_step ::
  "bool \<Rightarrow> string list \<times> string list \<Rightarrow> string \<times> string \<Rightarrow> string list \<times> string list"
where
  "combo_step USEQUOTES st kv =
     (case st of (cmd, level_required_keys) \<Rightarrow>
      case kv of (k, v) \<Rightarrow>
        if v = [] then (cmd @ [''-r'', k], level_required_keys)
        else
          let k' = (if USEQUOTES then [CHR 0x22] @ k @ [CHR 0x22] else k) in
          (cmd @ [''-m'', k' @ ''='' @ v],
           if k' \<in> set level_required_keys then remove1 k' level_required_keys
           else level_required_keys))"

text \<open>
  \<^verbatim>\<open>def combo_cmd(cmd)\<close> reads the names \<^verbatim>\<open>level\<close>, \<^verbatim>\<open>query_map\<close> and
  \<^verbatim>\<open>USEQUOTES\<close> that it does not bind itself. \<open>combo_cmd\<close> is the body of the
  function with the values of these names as arguments; what the names are bound to
  when \<open>finder\<close> and \<open>geter\<close> call the function is \<open>combo_cmd_call\<close> below.
  \<^verbatim>\<open>level_map[level]\<close> raises \<open>KeyError\<close> for a level that is not one of the four.
\<close>

definition combo_cmd :: "bool \<Rightarrow> string \<Rightarrow> query_map \<Rightarrow> string list \<Rightarrow> error + string list" where
  "combo_cmd USEQUOTES level query_map cmd =
     (case map_of level_map level of
        None \<Rightarrow> Inl (KeyError level)
      | Some level_args \<Rightarrow>
          (case map_of level_required_keys_map level of
             None \<Rightarrow> Inl (KeyError level)
           | Some level_required_keys \<Rightarrow>
               (case foldl (combo_step USEQUOTES) (cmd @ concat level_args, level_required_keys)
                       query_map of
                  (cmd', remaining_keys) \<Rightarrow>
                    Inr (cmd' @ concat (map (\<lambda>k. [''-r'', k]) remaining_keys)))))"

section \<open>The command-line backends (pydcm4che3.finder, pydcm4che3.geter)\<close>

text \<open>
  What the module reads from its surroundings: the paths found at import time, the flag
  \<^verbatim>\<open>USEQUOTES\<close>, and the operating system. A backend process is run to its end:
  \<open>popen\<close> gives, for a command line, the lines it writes to standard output and its
  exit code. \<open>mkdtemp\<close> gives the path of the directory that \<^verbatim>\<open>mkdtemp(prefix=...)\<close>
  creates, \<open>glob\<close> the files a pattern matches once the process has ended.
\<close>

record process =
  stdout :: "string list"
  returncode :: int

record toolkit =
  FINDSCU :: string
  GETSCU :: string
  CONTEXTS :: string
  USEQUOTES :: bool
  contexts_isfile :: bool
  popen :: "string list \<Rightarrow> process"
  mkdtemp :: "string \<Rightarrow> string"
  glob :: "string \<Rightarrow> string list"

text \<open>
  The call \<^verbatim>\<open>combo_cmd(find_cmd)\<close> of \<open>finder\<close> and \<^verbatim>\<open>combo_cmd(get_cmd)\<close> of
  \<open>geter\<close>. The names \<^verbatim>\<open>level\<close> and \<^verbatim>\<open>query_map\<close> in the body of \<open>combo_cmd\<close> are
  not its parameters, so Python looks them up in the scope of the module, not in the
  scope of the caller. \<open>pydcm4che3.py\<close> binds neither name at module level, nor does
  \<open>structures.py\<close>, whose names it imports: the first read, \<^verbatim>\<open>level_map[level]\<close>,
  raises \<open>NameError\<close>.
\<close>

definition global_level :: "string option" where
  "global_level = None"

definition global_query_map :: "query_map option" where
  "global_query_map = None"

definition combo_cmd_call :: "bool \<Rightarrow> string list \<Rightarrow> error + string list" where
  "combo_cmd_call quotes cmd =
     (case global_level of
        None \<Rightarrow> Inl (NameError ''level'')
      | Some level \<Rightarrow>
          (case map_of level_map level of
             None \<Rightarrow> Inl (KeyError level)
           | Some level_args \<Rightarrow>
               (case global_query_map of
                  None \<Rightarrow> Inl (NameError ''query_map'')
                | Some query_map \<Rightarrow> combo_cmd quotes level query_map cmd)))"

text \<open>
  The loop of \<open>geter\<close> over the lines of the process:
  \<^verbatim>\<open>
      for line in subproc.stdout:
          response = _parse_cget_response(line)
          if response is not None:
              yield response
          else:
              response = _parse_cstore_response(line)
              if response is not None:
                  yield response
  \<close>
\<close>

fun parse_lines :: "string list \<Rightarrow> structures list" where
  "parse_lines [] = []"
| "parse_lines (line # lines) =
     (case parse_cget_response line of
        Some response \<Rightarrow> response # parse_lines lines
      | None \<Rightarrow>
          (case parse_cstore_response line of
             Some response \<Rightarrow> response # parse_lines lines
           | None \<Rightarrow> parse_lines lines))"

text \<open>
  \<open>geter\<close> from the start of the process on (lines 279 to 300), for the command line
  \<open>get_cmd\<close> built before:
  \<^verbatim>\<open>
      subproc = _popen_with_pipe(get_cmd)
      for line in subproc.stdout: ...
      # wait for termination
      subproc.communicate()
      if subproc.returncode != 0:
          raise QIError("C-get from %s failed (%d), Command line was %s" %
                        (aet, subproc.returncode, get_cmd))
  \<close>
\<close>

definition geter_run :: "toolkit \<Rightarrow> string \<Rightarrow> string list \<Rightarrow> structures generator" where
  "geter_run tk called_aet get_cmd =
     (let subproc = popen tk get_cmd
      in (parse_lines (stdout subproc),
          if returncode subproc \<noteq> 0
          then Some (QIError (CGetFailed called_aet (returncode subproc) get_cmd))
          else None))"

text \<open>
  \<^verbatim>\<open>
  def geter(aet, node, port, laet, level, savedir, **query_map):
      get_cmd = [GETSCU]
      get_cmd += ['--bind', laet]
      get_cmd += ['--connect', '%s@%s:%s' % (aet, node, port)]
      get_cmd = combo_cmd(get_cmd)
      get_cmd += ['--directory', savedir]
      if isfile(CONTEXTS):
          get_cmd += ['--store-tcs', CONTEXTS]
      subproc = _popen_with_pipe(get_cmd)
      ...
  \<close>
  The function is a generator: an error of \<open>combo_cmd\<close> is raised when the first event
  is asked for, and the process is not started. The parameters \<open>level\<close> and
  \<open>query_map\<close> of \<open>geter\<close> are not read anywhere in its body.
\<close>

definition geter ::
  "toolkit \<Rightarrow> string \<Rightarrow> string \<Rightarrow> string \<Rightarrow> string \<Rightarrow> string \<Rightarrow> string \<Rightarrow> query_map
     \<Rightarrow> structures generator"
where
  "geter tk called_aet node tcp_port laet level savedir query_map =
     (case combo_cmd_call (USEQUOTES tk)
             ([GETSCU tk] @ [''--bind'', laet]
              @ [''--connect'', called_aet @ ''@'' @ node @ '':'' @ tcp_port]) of
        Inl e \<Rightarrow> ([], Some e)
      | Inr cmd \<Rightarrow>
          geter_run tk called_aet
            (cmd @ [''--directory'', savedir]
             @ (if contexts_isfile tk then [''--store-tcs'', CONTEXTS tk] else [])))"

text \<open>
  The list comprehension \<^verbatim>\<open>[parser(f, query_map.keys()) for f in glob(...)]\<close>: the
  first file the parser fails on ends it.
\<close>

fun parse_files :: "(string \<Rightarrow> string list \<Rightarrow> error + 'r) \<Rightarrow> string list \<Rightarrow> string list
     \<Rightarrow> error + 'r list" where
  "parse_files parser [] keys = Inr []"
| "parse_files parser (f # fs) keys =
     (case parser f keys of
        Inl e \<Rightarrow> Inl e
      | Inr r \<Rightarrow> (case parse_files parser fs keys of Inl e \<Rightarrow> Inl e | Inr rs \<Rightarrow> Inr (r # rs)))"

text \<open>
  \<open>finder\<close> from the line after the call of \<open>combo_cmd\<close> on (lines 250 to 267), for the
  directory \<open>tmpdir\<close> made and the command line \<open>cmd\<close> built before:
  \<^verbatim>\<open>
      find_cmd += ['-X', '-I']
      find_cmd += ['--out-dir', tmpdir]
      find_cmd += ['--out-file', 'match']
      subproc = _popen_with_pipe(find_cmd)
      output = subproc.communicate()[0]
      if subproc.returncode != 0:
          raise QIError("Query to %s failed: %s, Command line was %s" %
                        (aet, output, find_cmd))
      responses = [parser(f, query_map.keys()) for f in glob(join(tmpdir, '*'))]
      shutil.rmtree(tmpdir)
      if ording_key:
          responses = sorted(responses, key=attrgetter(ording_key))
          return responses
      return responses
  \<close>
  The state is the set of directories that exist: \<open>mkdtemp\<close> adds one, \<open>rmtree\<close> removes
  one. The function returns the state it leaves with its result. \<open>attrgetter\<close> is the
  sort key of a record, \<^verbatim>\<open>sorted\<close> is stable.
\<close>

definition finder_run ::
  "toolkit \<Rightarrow> (string \<Rightarrow> 'r \<Rightarrow> 'k::linorder) \<Rightarrow> string set \<Rightarrow> string \<Rightarrow> string
     \<Rightarrow> string list \<Rightarrow> (string \<Rightarrow> string list \<Rightarrow> error + 'r) \<Rightarrow> string option \<Rightarrow> query_map
     \<Rightarrow> string set \<times> (error + 'r list)"
where
  "finder_run tk attrgetter dirs1 tmpdir called_aet cmd parser ording_key query_map =
     (let find_cmd = cmd @ [''-X'', ''-I''] @ [''--out-dir'', tmpdir]
              @ [''--out-file'', ''match''];
          subproc = popen tk find_cmd
      in if returncode subproc \<noteq> 0
         then (dirs1, Inl (QIError (QueryFailed called_aet (concat (stdout subproc))
                                      find_cmd)))
         else
           (case parse_files parser (glob tk (tmpdir @ ''/*'')) (map fst query_map) of
              Inl e \<Rightarrow> (dirs1, Inl e)
            | Inr responses \<Rightarrow>
                (dirs1 - {tmpdir},
                 Inr (case ording_key of
                        None \<Rightarrow> responses
                      | Some k \<Rightarrow>
                          if k = [] then responses
                          else sort_key (attrgetter k) responses))))"

text \<open>
  \<^verbatim>\<open>
  def finder(aet, node, port, laet, level, parser, ording_key=None, **query_map):
      tmpdir = mkdtemp(prefix='dcmfetch')
      find_cmd = [FINDSCU]
      find_cmd += ['--bind', laet]
      find_cmd += ['--connect', '%s@%s:%s' % (aet, node, port)]
      find_cmd = combo_cmd(find_cmd)
      ...
  \<close>
  An error of \<open>combo_cmd\<close> leaves the function after \<open>mkdtemp\<close> has made the directory.
\<close>

definition finder ::
  "toolkit \<Rightarrow> (string \<Rightarrow> 'r \<Rightarrow> 'k::linorder) \<Rightarrow> string set
     \<Rightarrow> string \<Rightarrow> string \<Rightarrow> string \<Rightarrow> string \<Rightarrow> string
     \<Rightarrow> (string \<Rightarrow> string list \<Rightarrow> error + 'r) \<Rightarrow> string option \<Rightarrow> query_map
     \<Rightarrow> string set \<times> (error + 'r list)"
where
  "finder tk attrgetter dirs called_aet node tcp_port laet level parser ording_key query_map =
     (let tmpdir = mkdtemp tk ''dcmfetch'';
          dirs1 = insert tmpdir dirs
      in case combo_cmd_call (USEQUOTES tk)
                ([FINDSCU tk] @ [''--bind'', laet]
                 @ [''--connect'', called_aet @ ''@'' @ node @ '':'' @ tcp_port]) of
           Inl e \<Rightarrow> (dirs1, Inl e)
         | Inr cmd \<Rightarrow>
             finder_run tk attrgetter dirs1 tmpdir called_aet cmd parser ording_key
               query_map)"

section \<open>The interface (queryinterface.py)\<close>

text \<open>
  \<open>queryinterface.py\<close> declares its own classes \<open>CGetResponse\<close> and \<open>CStoreResponse\<close>,
  with the names and fields of those of \<open>structures.py\<close>; they are the classes that the
  tests \<^verbatim>\<open>type(response) == CGetResponse\<close> and \<^verbatim>\<open>type(response) == CStoreResponse\<close>
  of \<open>fetch\<close> name. Two calls of \<open>namedtuple\<close> give two classes, and a tuple of one is
  not of the type of the other. From here on the plain names \<open>CGetResponse\<close>,
  \<open>CStoreResponse\<close>, \<open>status\<close> and so on are those of this type.
\<close>

datatype response =
    CGetResponse (pcid: int) (remaining: int) (completed: int) (failed: int)
                 (warning: int) (status: int)
  | CStoreResponse (pcid: int) (status: int)

text \<open>
  Modelled from the spec: the server directory (module \<open>aettable\<close>, class \<open>AetTable\<close>) is
  not part of the sources at hand. It maps a server name to a descriptor with the
  attributes the interface reads: application-entity title, host, port, optional
  credentials, and the facility markers, one letter each (\<open>W\<close> web, \<open>F\<close> find-capable,
  \<open>G\<close> get-capable). It is a mapping: a subscript with a name it does not hold raises
  \<open>KeyError\<close>.
\<close>

record server =
  aet :: string
  host :: string
  port :: string
  auth :: "string option"
  facilities :: string

record interface =
  aettable :: "string \<rightharpoonup> server"
  localaet :: string

text \<open>
  The handler tables. The functions \<^verbatim>\<open>rst_*\<close> come from the module \<open>dicomweb\<close>, which
  is not part of the sources at hand; they are named here and run by whoever supplies the
  backends. \<open>finder\<close> and \<open>getter\<close> are the names the module asks of \<open>pydcm4che3\<close>
  (\<^verbatim>\<open>from pydcm4che3 import finder, getter, Parser\<close>); that module defines \<open>finder\<close>
  and \<open>geter\<close> and no \<open>getter\<close>, so the handler \<open>Getter\<close> is a name only and is bound
  to no function here.
  \<^verbatim>\<open>
  query_level_souported = {
      'W': {'patient': rst_pat_level_find, 'study': rst_stu_level_find,
            'series': rst_ser_level_find, 'image': rst_img_level_find},
      'F': {'patient': finder, 'study': finder, 'series': finder, 'image': finder}}
  fetch_level_souported = {
      'W': {'patient': rst_pat_level_find, 'study': rst_stu_level_find,
            'series': rst_ser_level_find, 'image': rst_img_level_find},
      'G': {'patient': getter, 'study': getter, 'series': getter, 'image': getter}}
  \<close>
\<close>

datatype handler =
    Rst_pat_level_find | Rst_stu_level_find | Rst_ser_level_find | Rst_img_level_find
  | Finder | Getter

definition query_level_souported :: "(char \<times> (string \<times> handler) list) list" where
  "query_level_souported =
     [(CHR ''W'', [(''patient'', Rst_pat_level_find), (''study'', Rst_stu_level_find),
                   (''series'', Rst_ser_level_find), (''image'', Rst_img_level_find)]),
      (CHR ''F'', [(''patient'', Finder), (''study'', Finder),
                   (''series'', Finder), (''image'', Finder)])]"

definition fetch_level_souported :: "(char \<times> (string \<times> handler) list) list" where
  "fetch_level_souported =
     [(CHR ''W'', [(''patient'', Rst_pat_level_find), (''study'', Rst_stu_level_find),
                   (''series'', Rst_ser_level_find), (''image'', Rst_img_level_find)]),
      (CHR ''G'', [(''patient'', Getter), (''study'', Getter),
                   (''series'', Getter), (''image'', Getter)])]"

text \<open>
  A call of a retrieval backend, with the keyword arguments it is given:
  \<^verbatim>\<open>rst_ser_level_get(endpoint=, node=, port=, auth=, **query_map)\<close> or
  \<^verbatim>\<open>getter(aet=, node=, port=, laet=, level=, savedir=, **query_map)\<close>, where \<open>getter\<close>
  is the handler looked up in the table.
\<close>

datatype fetch_call =
    Rst_ser_level_get string string string "string option" query_map
  | Fetch_handler handler string string string string string string query_map

text \<open>
  \<open>fetch\<close>, from its first line to the call of the backend:
  \<^verbatim>\<open>
      if servername not in self.aettable:
          raise QIError("%s is not in dicom node table" % servername)
      server = self.aettable[servername]
      completed = 0
      remaining = -1
      server_mark = None
      if 'W' in server.facilities:
          server_mark = 'W'
      elif 'G' in server.facilities:
          server_mark = 'G'
      getter = fetch_level_souported[server_mark][level]
      if server_mark == 'W':
          fetch_iter = rst_ser_level_get(
              endpoint=server.aet, node=server.host,
              port=server.port, auth=server.auth, **query_map)
      elif server_mark == 'G':
          fetch_iter = getter(
              aet=server.aet, node=server.host,
              port=server.port, laet=self.localaet,
              level=level, savedir=save_dir, **query_map)
      else:
          raise QIError("%s supports neither ..." % servername)
  \<close>
  The value is the error raised or the backend call made.
\<close>

definition fetch_select ::
  "interface \<Rightarrow> string \<Rightarrow> string \<Rightarrow> string \<Rightarrow> query_map \<Rightarrow> error + fetch_call"
where
  "fetch_select self servername level save_dir query_map =
     (case aettable self servername of
        None \<Rightarrow> Inl (QIError (NotInNodeTable servername))
      | Some server \<Rightarrow>
          let server_mark =
                (if CHR ''W'' \<in> set (facilities server) then Some (CHR ''W'')
                 else if CHR ''G'' \<in> set (facilities server) then Some (CHR ''G'')
                 else None)
          in case server_mark of
               None \<Rightarrow> Inl (KeyError ''None'')
             | Some mark \<Rightarrow>
                 (case map_of fetch_level_souported mark of
                    None \<Rightarrow> Inl (KeyError [mark])
                  | Some levels \<Rightarrow>
                      (case map_of levels level of
                         None \<Rightarrow> Inl (KeyError level)
                       | Some handler \<Rightarrow>
                           if mark = CHR ''W''
                           then Inr (Rst_ser_level_get (aet server) (host server)
                                       (port server) (auth server) query_map)
                           else if mark = CHR ''G''
                           then Inr (Fetch_handler handler (aet server) (host server)
                                       (port server) (localaet self) level save_dir
                                       query_map)
                           else Inl (QIError (NoRetrieveFacility servername)))))"

text \<open>
  The loop of \<open>fetch\<close> over events of the two classes of this module; the state is
  the pair \<open>(completed, remaining)\<close> (here \<open>n_completed\<close>, \<open>n_remaining\<close>), the value
  the snapshots yielded:
  \<^verbatim>\<open>
      for response in fetch_iter:
          if type(response) == CGetResponse:
              completed = response.completed
              remaining = response.remaining
              yield (completed, remaining)
          elif type(response) == CStoreResponse:
              completed += 1
              yield (completed, remaining)
  \<close>
\<close>

fun progress :: "int \<times> int \<Rightarrow> response list \<Rightarrow> (int \<times> int) list" where
  "progress st [] = []"
| "progress (n_completed, n_remaining) (CGetResponse p r c f w s # responses) =
     (c, r) # progress (c, r) responses"
| "progress (n_completed, n_remaining) (CStoreResponse p s # responses) =
     (n_completed + 1, n_remaining) # progress (n_completed + 1, n_remaining) responses"

text \<open>
  The loop and what follows it; \<open>fetch_iter\<close> is the backend's generator. An error the
  backend raises passes through the loop. When the backend returns, \<open>response\<close> is the
  last event it yielded, or \<open>None\<close> when there was no event:
  \<^verbatim>\<open>
      response = None
      for response in fetch_iter: ...
      if response is None:
          return
      if response.status != 0:
          raise QIError("cget final response status non zero (%x)" % response.status)
  \<close>
\<close>

definition fetch_progress :: "response generator \<Rightarrow> (int \<times> int) generator" where
  "fetch_progress fetch_iter =
     (case fetch_iter of (responses, stop) \<Rightarrow>
        (progress (0, - 1) responses,
         case stop of
           Some e \<Rightarrow> Some e
         | None \<Rightarrow>
             if responses = [] then None
             else if status (last responses) \<noteq> 0
             then Some (QIError (FinalStatusNonZero (status (last responses))))
             else None))"

text \<open>
  \<open>fetch\<close> as a whole, for a backend whose events are of the two classes of this
  module; \<open>run\<close> runs the backend call.
\<close>

definition fetch ::
  "(fetch_call \<Rightarrow> response generator) \<Rightarrow> interface \<Rightarrow> string \<Rightarrow> string \<Rightarrow> string
     \<Rightarrow> query_map \<Rightarrow> (int \<times> int) generator"
where
  "fetch run self servername level save_dir query_map =
     (case fetch_select self servername level save_dir query_map of
        Inl e \<Rightarrow> ([], Some e)
      | Inr call \<Rightarrow> fetch_progress (run call))"

text \<open>
  The same loop for a backend that may also yield tuples of the classes of
  \<open>structures.py\<close>, as \<open>geter\<close> does. Such a tuple passes neither test of the loop:
  nothing is yielded for it and the state is kept. It still is the value of \<open>response\<close>
  after the loop, and its attribute \<open>status\<close> is read there.
\<close>

datatype item = Interface_tuple response | Structures_tuple structures

fun item_status :: "item \<Rightarrow> int" where
  "item_status (Interface_tuple r) = status r"
| "item_status (Structures_tuple t) = structures.status t"

fun progress_items :: "int \<times> int \<Rightarrow> item list \<Rightarrow> (int \<times> int) list" where
  "progress_items st [] = []"
| "progress_items (n_completed, n_remaining)
     (Interface_tuple (CGetResponse p r c f w s) # items) =
     (c, r) # progress_items (c, r) items"
| "progress_items (n_completed, n_remaining) (Interface_tuple (CStoreResponse p s) # items) =
     (n_completed + 1, n_remaining) # progress_items (n_completed + 1, n_remaining) items"
| "progress_items st (Structures_tuple t # items) = progress_items st items"

definition fetch_loop :: "item generator \<Rightarrow> (int \<times> int) generator" where
  "fetch_loop fetch_iter =
     (case fetch_iter of (items, stop) \<Rightarrow>
        (progress_items (0, - 1) items,
         case stop of
           Some e \<Rightarrow> Some e
         | None \<Rightarrow>
             if items = [] then None
             else if item_status (last items) \<noteq> 0
             then Some (QIError (FinalStatusNonZero (item_status (last items))))
             else None))"

text \<open>
  A call of a query backend:
  \<^verbatim>\<open>finder(endpoint=, node=, port=, auth=, ording_key=, parser=, level=, **query_map)\<close> or
  \<^verbatim>\<open>finder(aet=, node=, port=, laet=, ording_key=, parser=, level=, **query_map)\<close>, where
  \<open>finder\<close> is the handler looked up in the table. The parser is handed on unchanged and
  is left to whoever runs the call.
\<close>

datatype query_call =
    Web_find handler string string string "string option" "string option" string query_map
  | Tool_find handler string string string string "string option" string query_map

text \<open>
  \<open>query\<close>, from its first line to the call of the backend:
  \<^verbatim>\<open>
      server = self.aettable[servername]
      if 'W' in server.facilities:
          server_mark = 'W'
      elif 'F' in server.facilities:
          server_mark = 'F'
      if servername not in self.aettable:
          raise Exception("%s is not in dicom node table" % servername)
      if level not in query_level_souported[server_mark]:
          raise Exception('the level not supported, the supported choices are {}'...)
      finder = query_level_souported[server_mark][level]
      if server_mark == 'W':
          res = finder(endpoint=server.aet, ...)
      elif server_mark == 'F':
          res = finder(aet=server.aet, ...)
      else:
          raise Exception("%s supports neither ..." % servername)
  \<close>
  \<open>server_mark\<close> has no value when the server has neither marker; reading it then raises
  \<open>UnboundLocalError\<close>.
\<close>

definition query_select ::
  "interface \<Rightarrow> string \<Rightarrow> string \<Rightarrow> string option \<Rightarrow> query_map \<Rightarrow> error + query_call"
where
  "query_select self servername level ording_key query_map =
     (case aettable self servername of
        None \<Rightarrow> Inl (KeyError servername)
      | Some server \<Rightarrow>
          let server_mark =
                (if CHR ''W'' \<in> set (facilities server) then Some (CHR ''W'')
                 else if CHR ''F'' \<in> set (facilities server) then Some (CHR ''F'')
                 else None)
          in if aettable self servername = None
             then Inl (PyException (NotInNodeTable servername))
             else
               (case server_mark of
                  None \<Rightarrow> Inl (UnboundLocalError ''server_mark'')
                | Some mark \<Rightarrow>
                    (case map_of query_level_souported mark of
                       None \<Rightarrow> Inl (KeyError [mark])
                     | Some levels \<Rightarrow>
                         (case map_of levels level of
                            None \<Rightarrow> Inl (PyException (LevelNotSupported (map fst levels)))
                          | Some handler \<Rightarrow>
                              if mark = CHR ''W''
                              then Inr (Web_find handler (aet server) (host server)
                                          (port server) (auth server) ording_key level
                                          query_map)
                              else if mark = CHR ''F''
                              then Inr (Tool_find handler (aet server) (host server)
                                          (port server) (localaet self) ording_key level
                                          query_map)
                              else Inl (PyException (NoQueryFacility servername))))))"

text \<open>
  \<open>query\<close> as a whole; \<open>run\<close> runs the backend call:
  \<^verbatim>\<open>
      if ording_key:
          return sorted(res, key=attrgetter(ording_key))
      return res
  \<close>
\<close>

definition query ::
  "(query_call \<Rightarrow> error + 'r list) \<Rightarrow> (string \<Rightarrow> 'r \<Rightarrow> 'k::linorder) \<Rightarrow> interface
     \<Rightarrow> string \<Rightarrow> string \<Rightarrow> string option \<Rightarrow> query_map \<Rightarrow> error + 'r list"
where
  "query run attrgetter self servername level ording_key query_map =
     (case query_select self servername level ording_key query_map of
        Inl e \<Rightarrow> Inl e
      | Inr call \<Rightarrow>
          (case run call of
             Inl e \<Rightarrow> Inl e
           | Inr res \<Rightarrow>
               Inr (case ording_key of
                      None \<Rightarrow> res
                    | Some k \<Rightarrow> if k = [] then res else sort_key (attrgetter k) res)))"

section \<open>Notions used to state the properties\<close>

text \<open>The number of capture groups of a pattern.\<close>

fun n_groups :: "regex_item list \<Rightarrow> nat" where
  "n_groups [] = 0"
| "n_groups (Group a lo hi # r) = Suc (n_groups r)"
| "n_groups (x # r) = n_groups r"

text \<open>The \<open>completed\<close> fields that the retrieve-progress events of a sequence carry.\<close>

fun retrieve_completed :: "response list \<Rightarrow> int list" where
  "retrieve_completed [] = []"
| "retrieve_completed (CGetResponse p r c f w s # evs) = c # retrieve_completed evs"
| "retrieve_completed (CStoreResponse p s # evs) = retrieve_completed evs"

text \<open>
  \<open>counts_cover n evs\<close>: every retrieve-progress event of \<open>evs\<close> carries a \<open>completed\<close>
  count that is no smaller than the running count when it arrives, where the running
  count starts at \<open>n\<close>, grows by one with each store-progress event and is replaced by
  each retrieve-progress event.
\<close>

fun counts_cover :: "int \<Rightarrow> response list \<Rightarrow> bool" where
  "counts_cover n [] = True"
| "counts_cover n (CGetResponse p r c f w s # evs) = (n \<le> c \<and> counts_cover c evs)"
| "counts_cover n (CStoreResponse p s # evs) = counts_cover (n + 1) evs"

subsection \<open>Concrete inputs\<close>

text \<open>
  The line that the comment above \<open>_parse_cget_response\<close> gives as its example, with the
  status \<open>1AH\<close>; a shorter retrieve-progress line and a store-progress line.
\<close>

definition example_cget_line :: string where
  "example_cget_line =
     ''23:00:36,960 INFO  - FINDSCU->CRICStore(1) >> 1:C-GET-RSP[pcid=1, completed=3, failed=0, warning=0, status=1AH''"

definition short_cget_line :: string where
  "short_cget_line =
     ''10:15:02,7 INFO 2:C-GET-RSP[pcid=1, completed=2, failed=0, warning=0, status=0H''"


text \<open>A toolkit whose backend process always behaves as the given one.\<close>

definition toolkit_with :: "process \<Rightarrow> toolkit" where
  "toolkit_with proc =
     \<lparr>FINDSCU = ''findscu'', GETSCU = ''getscu'', CONTEXTS = ''store-tcs.properties'',
      USEQUOTES = False, contexts_isfile = False,
      popen = (\<lambda>cmd. proc),
      mkdtemp = (\<lambda>prefix. ''/tmp/'' @ prefix @ ''0''),
      glob = (\<lambda>pattern. [])\<rparr>"


definition findscu_exit_1 :: toolkit where
  "findscu_exit_1 = toolkit_with \<lparr>stdout = [''connection refused''], returncode = 1\<rparr>"

text \<open>A directory with a server that is both web- and get-capable; a backend that
  yields nothing.\<close>

definition web_directory :: interface where
  "web_directory =
     \<lparr>aettable = [''Web'' \<mapsto> \<lparr>aet = ''rs'', host = ''pacs'', port = ''8080'', auth = None,
                               facilities = ''WG''\<rparr>],
      localaet = ''dcmStore''\<rparr>"

definition no_events :: "fetch_call \<Rightarrow> response generator" where
  "no_events call = ([], None)"

section \<open>Properties of the pattern matcher and of the loops\<close>

lemma first_some_SomeD: "first_some f xs = Some y \<Longrightarrow> \<exists>x \<in> set xs. f x = Some y"
  by (induction xs) (auto split: option.splits)

text \<open>A match has one text for each capture group, so \<open>group m i\<close> is in range.\<close>

lemma re_match_length: "re_match r s = Some m \<Longrightarrow> length m = n_groups r"
proof (induction r s arbitrary: m rule: re_match.induct)
  case (1 s)
  then show ?case by simp
next
  case (2 l r s)
  then show ?case by (auto split: if_splits)
next
  case (3 a lo hi r s)
  from first_some_SomeD[OF "3.prems"[simplified]]
  obtain k where "k \<in> set (greedy_counts a lo hi s)" "re_match r (drop k s) = Some m"
    by auto
  then show ?case using "3.IH" by simp
next
  case (4 a lo hi r s)
  from first_some_SomeD[OF "4.prems"[simplified]]
  obtain k where "k \<in> set (greedy_counts a lo hi s)"
    "map_option ((#) (take k s)) (re_match r (drop k s)) = Some m"
    by auto
  then show ?case using "4.IH" by auto
qed

lemma n_groups_patterns: "n_groups cget_regex = 5" "n_groups cstore_regex = 2"
  by (simp_all add: cget_regex_def cstore_regex_def)

text \<open>
  What \<open>_parse_cget_response\<close> puts into an event, for any line: \<open>warning\<close> and \<open>status\<close>
  are both read from the fourth group.
\<close>

lemma parse_cget_response_fields:
  "parse_cget_response line = Some r \<Longrightarrow>
     \<exists>m. re_match cget_regex line = Some m \<and> length m = 5
        \<and> structures.warning r = py_int 10 (group m 4)
        \<and> structures.status r = py_int 16 (group m 4)"
  by (auto simp: parse_cget_response_def re_match_length n_groups_patterns
           split: option.splits)

lemma example_cget_line_match:
  "re_match cget_regex example_cget_line = Some [''1'', ''3'', ''0'', ''0'', ''1A'']"
  by code_simp

lemma short_cget_line_parse:
  "parse_cget_response short_cget_line = Some (structures.CGetResponse 1 0 2 0 0 0)"
  by code_simp



text \<open>The loop yields one snapshot for each event.\<close>

lemma length_progress: "length (progress st evs) = length evs"
proof (induction evs arbitrary: st)
  case Nil
  show ?case by simp
next
  case (Cons x xs)
  obtain c r where st: "st = (c, r)" by (cases st)
  show ?case using Cons.IH by (cases x) (simp_all add: st)
qed

lemma progress_lower:
  "counts_cover n evs \<Longrightarrow> x \<in> set (progress (n, r) evs) \<Longrightarrow> n \<le> fst x"
proof (induction evs arbitrary: n r)
  case Nil
  then show ?case by simp
next
  case (Cons e evs)
  show ?case
  proof (cases e)
    case (CGetResponse p r' c f w s)
    with Cons.prems have "n \<le> c" "counts_cover c evs"
      "x = (c, r') \<or> x \<in> set (progress (c, r') evs)"
      by auto
    then show ?thesis using Cons.IH[of c r'] by auto
  next
    case (CStoreResponse p s)
    with Cons.prems have "counts_cover (n + 1) evs"
      "x = (n + 1, r) \<or> x \<in> set (progress (n + 1, r) evs)"
      by auto
    then show ?thesis using Cons.IH[of "n + 1" r] by auto
  qed
qed

lemma progress_sorted: "counts_cover n evs \<Longrightarrow> sorted (map fst (progress (n, r) evs))"
proof (induction evs arbitrary: n r)
  case Nil
  then show ?case by simp
next
  case (Cons e evs)
  show ?case
  proof (cases e)
    case (CGetResponse p r' c f w s)
    with Cons.prems have cc: "counts_cover c evs" by simp
    show ?thesis using Cons.IH[OF cc, of r'] progress_lower[OF cc, of _ r']
      by (auto simp: CGetResponse)
  next
    case (CStoreResponse p s)
    with Cons.prems have cc: "counts_cover (n + 1) evs" by simp
    show ?thesis using Cons.IH[OF cc, of r] progress_lower[OF cc, of _ r]
      by (auto simp: CStoreResponse)
  qed
qed

text \<open>
  On events of the interface's own classes the general loop is \<open>fetch_progress\<close>; for
  tuples of the classes of \<open>structures.py\<close> it yields no snapshot.
\<close>

lemma progress_items_interface:
  "progress_items st (map Interface_tuple evs) = progress st evs"
proof (induction evs arbitrary: st)
  case Nil
  show ?case by simp
next
  case (Cons x xs)
  obtain c r where st: "st = (c, r)" by (cases st)
  show ?case using Cons.IH by (cases x) (simp_all add: st)
qed

lemma fetch_loop_interface:
  "fetch_loop (map Interface_tuple evs, stop) = fetch_progress (evs, stop)"
proof (cases "evs = []")
  case True
  then show ?thesis by (simp add: fetch_loop_def fetch_progress_def)
next
  case False
  then have "item_status (last (map Interface_tuple evs)) = status (last evs)"
    by (simp add: last_map)
  with False show ?thesis
    by (simp add: fetch_loop_def fetch_progress_def progress_items_interface
             split: option.splits)
qed

lemma progress_items_structures:
  "progress_items st (map Structures_tuple ts) = []"
  by (induction ts) simp_all

text \<open>
  As the module stands, the call of \<open>combo_cmd\<close> raises \<open>NameError\<close>: \<open>geter\<close> yields
  no event and starts no process, and \<open>finder\<close> raises after it has made its directory.
\<close>

lemma combo_cmd_call_name_error: "combo_cmd_call q cmd = Inl (NameError ''level'')"
  by (simp add: combo_cmd_call_def global_level_def)

lemma geter_name_error:
  "geter tk a n p laet level savedir query_map = ([], Some (NameError ''level''))"
  by (simp add: geter_def combo_cmd_call_name_error)

lemma finder_name_error:
  "finder tk attrgetter dirs a n p laet level parser ording_key query_map =
     (insert (mkdtemp tk ''dcmfetch'') dirs, Inl (NameError ''level''))"
  by (simp add: finder_def combo_cmd_call_name_error Let_def)

text \<open>
  From the line after the call of \<open>combo_cmd\<close> on, \<open>finder\<close> leaves the directory behind
  exactly when it raises: the only \<open>rmtree\<close> comes after the exit-code check and after
  the parser has run.
\<close>

lemma finder_run_tmpdir:
  "fst (finder_run tk attrgetter dirs1 tmpdir a cmd parser ording_key query_map) =
     (case snd (finder_run tk attrgetter dirs1 tmpdir a cmd parser ording_key query_map) of
        Inl e \<Rightarrow> dirs1
      | Inr rs \<Rightarrow> dirs1 - {tmpdir})"
  by (auto simp: finder_run_def Let_def split: sum.splits)

text \<open>\<open>fetch\<close> checks the server name before anything else.\<close>

lemma fetch_unknown_server:
  "aettable self servername = None \<Longrightarrow>
     fetch_select self servername level save_dir query_map
       = Inl (QIError (NotInNodeTable servername))
     \<and> fetch run self servername level save_dir query_map
       = ([], Some (QIError (NotInNodeTable servername)))"
  by (simp add: fetch_def fetch_select_def)

section \<open>The claims\<close>

text \<open>
  C1. Claimed: for every line matching the retrieve-progress grammar the event's
  \<open>warning\<close> is the base-10 value of the warning token and its \<open>status\<close> the base-16
  value of the status token, so \<open>warning=0, status=1AH\<close> gives warning 0 and status 26.
  The code reads the status from group 4, the warning token, and never reads group 5:
  on the example line the status token is \<open>1A\<close>, whose base-16 value is 26, and the event
  carries status 0.
\<close>

theorem parse_cget_response_status_reads_warning_token:
  "re_match cget_regex example_cget_line = Some [''1'', ''3'', ''0'', ''0'', ''1A'']
   \<and> py_int 16 ''1A'' = 26
   \<and> parse_cget_response example_cget_line = Some (structures.CGetResponse 1 0 3 0 0 0)"
  by (simp add: parse_cget_response_def example_cget_line_match group_def py_int_def
      digit_value_def)

text \<open>
  C2. Claimed: for a series-level build with the caller map
  \<open>{'PatientID': '123', 'Modality': ''}\<close> the builder emits the filter
  \<open>PatientID=123\<close>, one return directive for \<open>Modality\<close>, and then return directives for
  \<open>StudyInstanceUID\<close>, \<open>SeriesNumber\<close>, \<open>SeriesInstanceUID\<close>, \<open>SeriesDescription\<close>,
  \<open>BodyPartExamined\<close>. The code takes a key off the list of mandatory keys only on the
  filter branch; the return branch leaves the loop turn before that, and \<open>Modality\<close> is
  emitted a second time among the mandatory keys. (With the names \<open>level\<close> and
  \<open>query_map\<close> unbound, as \<open>finder\<close> and \<open>geter\<close> call the function, it emits nothing
  and raises \<open>NameError\<close>: lemma \<open>combo_cmd_call_name_error\<close>.)
\<close>

theorem combo_cmd_series_return_key_repeated:
  "combo_cmd False ''series'' [(''PatientID'', ''123''), (''Modality'', [])] cmd =
     Inr (cmd @ [''-M'', ''PatientRoot'', ''-L'', ''SERIES'',
                 ''-m'', ''PatientID=123'', ''-r'', ''Modality'',
                 ''-r'', ''StudyInstanceUID'', ''-r'', ''Modality'', ''-r'', ''SeriesNumber'',
                 ''-r'', ''SeriesInstanceUID'', ''-r'', ''SeriesDescription'',
                 ''-r'', ''BodyPartExamined''])"
  by (simp add: combo_cmd_def level_map_def level_required_keys_map_def combo_step_def)



text \<open>
  C4, as amended. Claimed: whenever the \<open>completed\<close> fields of the retrieve-progress
  events are non-decreasing along the sequence, the \<open>completed\<close> component of the
  snapshots is non-decreasing. That fails when a retrieve-progress event reports fewer
  objects than store-progress events have been counted. What holds: when every
  retrieve-progress event carries a \<open>completed\<close> count no smaller than the running count
  at the moment it arrives (the count of the retrieve-progress event before it, or 0 at
  the start, plus the number of store-progress events since), the \<open>completed\<close> component
  of the snapshots is non-decreasing, however the two kinds of event interleave.
\<close>

theorem fetch_progress_completed_monotone:
  "counts_cover 0 evs \<Longrightarrow> sorted (map fst (fst (fetch_progress (evs, stop))))"
  by (simp add: fetch_progress_def progress_sorted)

theorem fetch_progress_completed_monotone_witness:
  "counts_cover 0 [CStoreResponse 1 0, CStoreResponse 1 0, CGetResponse 1 0 2 0 0 0]
   \<and> sorted (map fst (fst (fetch_progress
        ([CStoreResponse 1 0, CStoreResponse 1 0, CGetResponse 1 0 2 0 0 0], None))))"
  using fetch_progress_completed_monotone
          [of "[CStoreResponse 1 0, CStoreResponse 1 0, CGetResponse 1 0 2 0 0 0]" None]
  by simp

text \<open>
  The claim as stated fails: two store-progress events and then a retrieve-progress event
  with completed 1. The only retrieve-progress count is 1, and the snapshots carry
  1, 2, 1.
\<close>

theorem fetch_progress_completed_drops:
  "sorted (retrieve_completed
             [CStoreResponse 1 0, CStoreResponse 1 0, CGetResponse 1 0 1 0 0 0])
   \<and> \<not> sorted (map fst (fst (fetch_progress
        ([CStoreResponse 1 0, CStoreResponse 1 0, CGetResponse 1 0 1 0 0 0], None))))"
  by (simp add: fetch_progress_def)

text \<open>
  C5. When the event stream ends: with no event, \<open>fetch\<close> yields no snapshot and raises
  nothing; otherwise the status of the last event decides, zero for success and non-zero
  for the retrieval-failure error, which comes after the snapshots of all the events,
  one for each event.
\<close>

theorem fetch_progress_end_of_stream:
  "fetch_progress ([], None) = ([], None)
   \<and> (evs \<noteq> [] \<longrightarrow>
        fetch_progress (evs, None) =
          (progress (0, - 1) evs,
           if status (last evs) = 0 then None
           else Some (QIError (FinalStatusNonZero (status (last evs)))))
        \<and> length (progress (0, - 1) evs) = length evs)"
  by (simp add: fetch_progress_def length_progress)

theorem fetch_progress_end_of_stream_witness:
  "[CStoreResponse 1 0, CGetResponse 1 0 1 0 0 257] \<noteq> []
   \<and> fetch_progress ([CStoreResponse 1 0, CGetResponse 1 0 1 0 0 257], None)
       = ([(1, - 1), (1, 0)], Some (QIError (FinalStatusNonZero 257)))"
  using fetch_progress_end_of_stream [of "[CStoreResponse 1 0, CGetResponse 1 0 1 0 0 257]"]
  by simp

text \<open>
  C6. Claimed: for a server name that the directory does not hold, both \<open>query\<close> and
  \<open>fetch\<close> raise the unknown-server error before any backend is invoked. \<open>fetch\<close> does
  (lemma \<open>fetch_unknown_server\<close>). \<open>query\<close> subscripts the directory on its first line
  and tests the name only afterwards: with an unknown name the subscript raises
  \<open>KeyError\<close>, and the test with its "is not in dicom node table" error is never reached.
\<close>

theorem query_unknown_server_key_error:
  "query_select \<lparr>aettable = Map.empty, localaet = ''dcmStore''\<rparr> ''nosuch'' ''series''
       None []
     = Inl (KeyError ''nosuch'')
   \<and> query run attrgetter \<lparr>aettable = Map.empty, localaet = ''dcmStore''\<rparr> ''nosuch''
       ''series'' None []
     = Inl (KeyError ''nosuch'')"
  by (simp add: query_def query_select_def)



text \<open>
  C8, as amended. Claimed: every retrieve-progress event that the parser produces
  carries the remaining count -1. The parser sets \<open>remaining = 0\<close> before it builds the
  tuple: every retrieve-progress event that it produces carries the remaining count 0.
\<close>

theorem parse_cget_response_remaining_zero:
  "parse_cget_response line = Some r \<Longrightarrow> structures.remaining r = 0"
  by (auto simp: parse_cget_response_def split: option.splits)

theorem parse_cget_response_remaining_zero_witness:
  "parse_cget_response short_cget_line = Some (structures.CGetResponse 1 0 2 0 0 0)
   \<and> structures.remaining (structures.CGetResponse 1 0 2 0 0 0) = 0"
  using parse_cget_response_remaining_zero [OF short_cget_line_parse] short_cget_line_parse
  by simp

theorem parse_cget_response_remaining_not_unknown:
  "parse_cget_response short_cget_line \<noteq> None
   \<and> map_option structures.remaining (parse_cget_response short_cget_line) \<noteq> Some (- 1)"
  by (simp add: short_cget_line_parse)

text \<open>
  C9. Claimed: every query removes the temporary directory it created before it returns
  or raises, also when the backend process exits non-zero. As the module stands,
  \<open>finder\<close> makes the directory and then raises \<open>NameError\<close> in the call of
  \<open>combo_cmd\<close>, and the directory is still there. From the line after that call on,
  with the command line that \<open>combo_cmd\<close> builds when its names are bound, the \<open>raise\<close>
  for a non-zero exit code comes before the only \<open>rmtree\<close>: for a process that exits
  with code 1 the lines raise and the directory is still there.
\<close>

theorem finder_leaves_tmpdir_on_failure:
  "finder findscu_exit_1 attrgetter {} ''SRV'' ''pacs'' ''104'' ''dcmStore'' ''patient''
       parser None [(''PatientID'', ''123'')]
     = ({''/tmp/dcmfetch0''}, Inl (NameError ''level''))
   \<and> combo_cmd False ''patient'' [(''PatientID'', ''123'')]
       [''findscu'', ''--bind'', ''dcmStore'', ''--connect'', ''SRV@pacs:104'']
     = Inr [''findscu'', ''--bind'', ''dcmStore'', ''--connect'', ''SRV@pacs:104'',
            ''-M'', ''PatientRoot'', ''-L'', ''PATIENT'', ''-m'', ''PatientID=123'',
            ''-r'', ''PatientName'', ''-r'', ''PatientBirthDate'', ''-r'', ''PatientSex'']
   \<and> finder_run findscu_exit_1 attrgetter {''/tmp/dcmfetch0''} ''/tmp/dcmfetch0'' ''SRV''
       [''findscu'', ''--bind'', ''dcmStore'', ''--connect'', ''SRV@pacs:104'',
        ''-M'', ''PatientRoot'', ''-L'', ''PATIENT'', ''-m'', ''PatientID=123'',
        ''-r'', ''PatientName'', ''-r'', ''PatientBirthDate'', ''-r'', ''PatientSex'']
       parser None [(''PatientID'', ''123'')]
     = ({''/tmp/dcmfetch0''},
        Inl (QIError (QueryFailed ''SRV'' ''connection refused''
          [''findscu'', ''--bind'', ''dcmStore'', ''--connect'', ''SRV@pacs:104'',
           ''-M'', ''PatientRoot'', ''-L'', ''PATIENT'', ''-m'', ''PatientID=123'',
           ''-r'', ''PatientName'', ''-r'', ''PatientBirthDate'', ''-r'', ''PatientSex'',
           ''-X'', ''-I'', ''--out-dir'', ''/tmp/dcmfetch0'', ''--out-file'', ''match''])))"
proof -
  have a: "finder findscu_exit_1 attrgetter {} ''SRV'' ''pacs'' ''104'' ''dcmStore''
       ''patient'' parser None [(''PatientID'', ''123'')]
     = ({''/tmp/dcmfetch0''}, Inl (NameError ''level''))"
    by (simp add: finder_def combo_cmd_call_def global_level_def findscu_exit_1_def
        toolkit_with_def Let_def)
  have b: "combo_cmd False ''patient'' [(''PatientID'', ''123'')]
       [''findscu'', ''--bind'', ''dcmStore'', ''--connect'', ''SRV@pacs:104'']
     = Inr [''findscu'', ''--bind'', ''dcmStore'', ''--connect'', ''SRV@pacs:104'',
            ''-M'', ''PatientRoot'', ''-L'', ''PATIENT'', ''-m'', ''PatientID=123'',
            ''-r'', ''PatientName'', ''-r'', ''PatientBirthDate'', ''-r'', ''PatientSex'']"
    by (simp add: combo_cmd_def combo_step_def level_map_def level_required_keys_map_def)
  have c: "finder_run findscu_exit_1 attrgetter {''/tmp/dcmfetch0''} ''/tmp/dcmfetch0''
       ''SRV''
       [''findscu'', ''--bind'', ''dcmStore'', ''--connect'', ''SRV@pacs:104'',
        ''-M'', ''PatientRoot'', ''-L'', ''PATIENT'', ''-m'', ''PatientID=123'',
        ''-r'', ''PatientName'', ''-r'', ''PatientBirthDate'', ''-r'', ''PatientSex'']
       parser None [(''PatientID'', ''123'')]
     = ({''/tmp/dcmfetch0''},
        Inl (QIError (QueryFailed ''SRV'' ''connection refused''
          [''findscu'', ''--bind'', ''dcmStore'', ''--connect'', ''SRV@pacs:104'',
           ''-M'', ''PatientRoot'', ''-L'', ''PATIENT'', ''-m'', ''PatientID=123'',
           ''-r'', ''PatientName'', ''-r'', ''PatientBirthDate'', ''-r'', ''PatientSex'',
           ''-X'', ''-I'', ''--out-dir'', ''/tmp/dcmfetch0'', ''--out-file'', ''match''])))"
    by (simp add: finder_run_def findscu_exit_1_def toolkit_with_def Let_def)
  from a b c show ?thesis by blast
qed

text \<open>
  C10. For a server of the directory whose facilities hold the marker \<open>W\<close>, and each of
  the four hierarchy levels, \<open>fetch\<close> calls the series-level web retrieval function
  \<open>rst_ser_level_get\<close> with the server's title, host, port and credentials and the query
  map. Neither the level nor \<open>save_dir\<close> is among the arguments of the call, and the
  snapshots are those of the events that this call yields.
\<close>

theorem fetch_web_series_get:
  assumes "aettable self servername = Some server"
    and "CHR ''W'' \<in> set (facilities server)"
    and "level \<in> {''patient'', ''study'', ''series'', ''image''}"
  shows "fetch_select self servername level save_dir query_map =
           Inr (Rst_ser_level_get (aet server) (host server) (port server) (auth server)
                  query_map)
       \<and> fetch run self servername level save_dir query_map =
           fetch_progress (run (Rst_ser_level_get (aet server) (host server) (port server)
                                  (auth server) query_map))"
  using assms by (auto simp: fetch_def fetch_select_def fetch_level_souported_def)

theorem fetch_web_series_get_witness:
  "aettable web_directory ''Web''
     = Some \<lparr>aet = ''rs'', host = ''pacs'', port = ''8080'', auth = None,
             facilities = ''WG''\<rparr>
   \<and> CHR ''W'' \<in> set ''WG''
   \<and> ''image'' \<in> {''patient'', ''study'', ''series'', ''image''}
   \<and> fetch_select web_directory ''Web'' ''image'' ''out'' [(''SOPInstanceUID'', ''1.2.3.4'')]
       = Inr (Rst_ser_level_get ''rs'' ''pacs'' ''8080'' None
                [(''SOPInstanceUID'', ''1.2.3.4'')])
   \<and> fetch no_events web_directory ''Web'' ''image'' ''out''
         [(''SOPInstanceUID'', ''1.2.3.4'')]
       = ([], None)"
proof -
  have d: "aettable web_directory ''Web''
     = Some \<lparr>aet = ''rs'', host = ''pacs'', port = ''8080'', auth = None,
             facilities = ''WG''\<rparr>"
    by (simp add: web_directory_def)
  show ?thesis
    using fetch_web_series_get
            [OF d, of "''image''" "''out''" "[(''SOPInstanceUID'', ''1.2.3.4'')]"
               no_events] d
    by (simp add: no_events_def fetch_progress_def)
qed

end
